theory Spec2Isabelle
  imports Main "HOL-Library.Word" "HOL-Library.List_Lexorder"
begin

section \<open>python-pdfbox: the interface to Apache PDFBox (\<^verbatim>\<open>pdfbox/__init__.py\<close>)\<close>

text \<open>
  The module locates a local copy of the PDFBox jar (an environment override, the
  newest jar of the user's cache directory, or a download of the newest version listed
  on the archive site) and turns method calls into command lines for \<^verbatim>\<open>java -jar\<close>.

  Python strings are modelled as \<^typ>\<open>string\<close> over ASCII, byte strings as lists of
  8-bit words. What the module gets from libraries it does not contain is not guessed:
  the SHA-512 digest, \<^verbatim>\<open>pkg_resources.parse_version\<close>, the codecs and the tokenizer of
  \<^verbatim>\<open>html.parser.HTMLParser\<close> are the fields of a record \<open>library\<close> that every
  function below takes as its first argument. The file system, the environment and the
  network are the fields of a record \<open>world\<close>, passed through and returned updated.
\<close>

subsection \<open>Exceptions\<close>

datatype error =
    RuntimeError string
  | URLError
  | UnicodeDecodeError
  | AttributeError
  | IndexError
  | InvalidVersion

type_synonym bytes = "8 word list"

subsection \<open>String helpers of the Python runtime\<close>

definition starts_with :: "string \<Rightarrow> string \<Rightarrow> bool" where
  "starts_with p s = (take (length p) s = p)"

definition ends_with :: "string \<Rightarrow> string \<Rightarrow> bool" where
  "ends_with p s = (length p \<le> length s \<and> drop (length s - length p) s = p)"

text \<open>\<^verbatim>\<open>s.strip(chars)\<close>: the characters of \<open>chars\<close> removed at both ends.\<close>

definition strip_chars :: "string \<Rightarrow> string \<Rightarrow> string" where
  "strip_chars cs s = rev (dropWhile (\<lambda>c. c \<in> set cs) (rev (dropWhile (\<lambda>c. c \<in> set cs) s)))"

text \<open>\<^verbatim>\<open>s.strip()\<close>: ASCII white space (codes 9 to 13, 28 to 32) removed at both ends.\<close>

definition is_space :: "char \<Rightarrow> bool" where
  "is_space c = (let n = of_char c :: nat in (9 \<le> n \<and> n \<le> 13) \<or> (28 \<le> n \<and> n \<le> 32))"

definition py_strip :: "string \<Rightarrow> string" where
  "py_strip s = rev (dropWhile is_space (rev (dropWhile is_space s)))"

definition is_digit :: "char \<Rightarrow> bool" where
  "is_digit c = (c \<in> set ''0123456789'')"

definition is_word_char :: "char \<Rightarrow> bool" where
  "is_word_char c =
     (c \<in> set ''abcdefghijklmnopqrstuvwxyzABCDEFGHIJKLMNOPQRSTUVWXYZ0123456789_'')"

text \<open>\<^verbatim>\<open>str(n)\<close> for an integer.\<close>

fun str_nat :: "nat \<Rightarrow> string" where
  "str_nat n =
     (if n < 10 then [''0123456789'' ! n] else str_nat (n div 10) @ [''0123456789'' ! (n mod 10)])"

definition str_int :: "int \<Rightarrow> string" where
  "str_int i = (if i < 0 then CHR ''-'' # str_nat (nat (- i)) else str_nat (nat i))"

text \<open>\<^verbatim>\<open>sep.join(xs)\<close>.\<close>

fun join :: "string \<Rightarrow> string list \<Rightarrow> string" where
  "join sep [] = []"
| "join sep [x] = x"
| "join sep (x # y # ys) = x @ sep @ join sep (y # ys)"

subsection \<open>The two regular expressions and the glob pattern\<close>

text \<open>
  \<^verbatim>\<open>re.search('\d+\.\d+\.\d+.*', s)\<close>. A run of digits that must be followed by a dot
  can only be the whole run, so the match at a position is deterministic; the final
  \<^verbatim>\<open>.*\<close> matches the empty string.
\<close>

definition digits_dot :: "string \<Rightarrow> string option" where
  "digits_dot s =
     (case dropWhile is_digit s of
        [] \<Rightarrow> None
      | c # r \<Rightarrow> if takeWhile is_digit s \<noteq> [] \<and> c = CHR ''.'' then Some r else None)"

definition version_here :: "string \<Rightarrow> bool" where
  "version_here s =
     (case digits_dot s of
        None \<Rightarrow> False
      | Some r1 \<Rightarrow>
          (case digits_dot r1 of
             None \<Rightarrow> False
           | Some r2 \<Rightarrow> (case r2 of [] \<Rightarrow> False | c # _ \<Rightarrow> is_digit c)))"

fun version_search :: "string \<Rightarrow> bool" where
  "version_search [] = False"
| "version_search (c # s) = (version_here (c # s) \<or> version_search s)"

text \<open>
  \<^verbatim>\<open>re.search('pdfbox-app-([\w\.\-]+)\.jar', name)\<close>: \<open>None\<close> when there is no match,
  otherwise \<^verbatim>\<open>group(1)\<close>: at the leftmost position where the prefix stands, the longest
  run of group characters that is followed by \<^verbatim>\<open>.jar\<close>.
\<close>

definition is_group_char :: "char \<Rightarrow> bool" where
  "is_group_char c = (is_word_char c \<or> c = CHR ''.'' \<or> c = CHR ''-'')"

fun group_end :: "nat \<Rightarrow> string \<Rightarrow> string option" where
  "group_end 0 r = None"
| "group_end (Suc k) r =
     (if starts_with ''.jar'' (drop (Suc k) r) then Some (take (Suc k) r) else group_end k r)"

definition jar_here :: "string \<Rightarrow> string option" where
  "jar_here s =
     (if starts_with ''pdfbox-app-'' s
      then (let r = drop (length ''pdfbox-app-'') s
            in group_end (length (takeWhile is_group_char r)) r)
      else None)"

fun jar_search :: "string \<Rightarrow> string option" where
  "jar_search [] = None"
| "jar_search (c # s) =
     (case jar_here (c # s) of Some v \<Rightarrow> Some v | None \<Rightarrow> jar_search s)"

text \<open>The glob pattern \<^verbatim>\<open>pdfbox-app-*.jar\<close> on a file name.\<close>

definition glob_match :: "string \<Rightarrow> bool" where
  "glob_match n =
     (starts_with ''pdfbox-app-'' n \<and> ends_with ''.jar'' n
      \<and> length ''pdfbox-app-'' + length ''.jar'' \<le> length n)"

subsection \<open>\<^verbatim>\<open>sorted(xs, key=f)[-1]\<close>\<close>

text \<open>
  \<^verbatim>\<open>sorted\<close> computes the key of every element first, in list order, so the first
  key that raises decides the exception; the sort is stable. Indexing the empty list
  with \<^verbatim>\<open>[-1]\<close> raises \<^verbatim>\<open>IndexError\<close>.
\<close>

fun keys_of :: "('a \<Rightarrow> error + 'k) \<Rightarrow> 'a list \<Rightarrow> error + ('k \<times> 'a) list" where
  "keys_of f [] = Inr []"
| "keys_of f (x # xs) =
     (case f x of
        Inl e \<Rightarrow> Inl e
      | Inr k \<Rightarrow> (case keys_of f xs of Inl e \<Rightarrow> Inl e | Inr ks \<Rightarrow> Inr ((k, x) # ks)))"

definition py_sorted :: "('a \<Rightarrow> error + 'k::linorder) \<Rightarrow> 'a list \<Rightarrow> error + 'a list" where
  "py_sorted f xs =
     (case keys_of f xs of Inl e \<Rightarrow> Inl e | Inr ks \<Rightarrow> Inr (map snd (sort_key fst ks)))"

definition py_last :: "'a list \<Rightarrow> error + 'a" where
  "py_last xs = (if xs = [] then Inl IndexError else Inr (last xs))"

definition sorted_last :: "('a \<Rightarrow> error + 'k::linorder) \<Rightarrow> 'a list \<Rightarrow> error + 'a" where
  "sorted_last f xs = (case py_sorted f xs of Inl e \<Rightarrow> Inl e | Inr s \<Rightarrow> py_last s)"

subsection \<open>Libraries and the world\<close>

text \<open>
  A start tag as \<^verbatim>\<open>HTMLParser\<close> hands it to \<^verbatim>\<open>handle_starttag\<close>: the tag name and the
  attributes, an attribute without a value having the value \<open>None\<close>.
\<close>

type_synonym starttag = "string \<times> (string \<times> string option) list"

record 'k library =
  sha512_hexdigest :: "bytes \<Rightarrow> string"
  parse_version :: "string \<Rightarrow> error + 'k"
  decode :: "string \<Rightarrow> bytes \<Rightarrow> string option"
  starttags :: "string \<Rightarrow> starttag list"

text \<open>
  \<open>sha512_hexdigest\<close> is \<^verbatim>\<open>hashlib.sha512(data).hexdigest()\<close>; \<open>parse_version\<close> is
  \<^verbatim>\<open>pkg_resources.parse_version\<close> with the exception it may raise; \<open>decode enc b\<close> is
  \<^verbatim>\<open>b.decode(enc)\<close>, \<open>None\<close> when it raises; \<open>starttags\<close> gives the start tags
  \<^verbatim>\<open>HTMLParser.feed\<close> reports for a document, in order.
\<close>

datatype response = Refused | Unreadable | Body bytes "string option"

text \<open>
  What \<^verbatim>\<open>urllib.request.urlopen(url)\<close> meets: \<open>Refused\<close> when \<^verbatim>\<open>urlopen\<close> itself
  raises, \<open>Unreadable\<close> when \<^verbatim>\<open>r.read()\<close> raises, otherwise the body and the charset
  of the content type header, if any.
\<close>

datatype effect = Urlopen string | Glob string | Mkdir string | Write string

record world =
  environ :: "string \<Rightarrow> string option"
  path_exists :: "string \<Rightarrow> bool"
  user_cache_dir :: string
  cache :: "(string \<times> bytes) list option"
  remote :: "string \<Rightarrow> response"
  which_java :: "string option"
  effects :: "effect list"
  printed :: "string list"
  spawned :: "string list"
  child_stdout :: "string \<Rightarrow> string"

text \<open>
  \<open>cache\<close> is the cache directory \<^verbatim>\<open>appdirs.AppDirs('python-pdfbox').user_cache_dir\<close>:
  \<open>None\<close> when it does not exist, otherwise its files (name and content) in the order
  a directory scan lists them. \<open>path_exists\<close> answers \<^verbatim>\<open>pathlib.Path(p).exists()\<close> for
  the override path. \<open>effects\<close> records, oldest first, each network request, cache scan
  and write the module performs; \<open>printed\<close> the lines it prints; \<open>spawned\<close> the
  command lines it runs; \<open>child_stdout\<close> the text a child process writes.
\<close>

definition record_effect :: "effect \<Rightarrow> world \<Rightarrow> world" where
  "record_effect e w = w\<lparr>effects := effects w @ [e]\<rparr>"

definition requests :: "world \<Rightarrow> string list" where
  "requests w = concat (map (\<lambda>e. case e of Urlopen u \<Rightarrow> [u] | _ \<Rightarrow> []) (effects w))"

definition scans :: "world \<Rightarrow> string list" where
  "scans w = concat (map (\<lambda>e. case e of Glob d \<Rightarrow> [d] | _ \<Rightarrow> []) (effects w))"

definition cache_names :: "world \<Rightarrow> string list" where
  "cache_names w = (case cache w of None \<Rightarrow> [] | Some fs \<Rightarrow> map fst fs)"

text \<open>\<^verbatim>\<open>cache_dir.glob('pdfbox-app-*.jar')\<close>, as file names.\<close>

definition glob_jars :: "world \<Rightarrow> string list" where
  "glob_jars w = filter glob_match (cache_names w)"

text \<open>\<^verbatim>\<open>cache_dir.joinpath(name)\<close>.\<close>

definition cache_path :: "world \<Rightarrow> string \<Rightarrow> string" where
  "cache_path w n = user_cache_dir w @ ''/'' @ n"

text \<open>\<^verbatim>\<open>pathlib.Path(url).name\<close> for a path that does not end in a slash.\<close>

definition path_name :: "string \<Rightarrow> string" where
  "path_name p = rev (takeWhile (\<lambda>c. c \<noteq> CHR ''/'') (rev p))"

text \<open>\<^verbatim>\<open>open(path, 'wb').write(data)\<close> in the cache directory: replaces or creates.\<close>

fun write_entry :: "string \<Rightarrow> bytes \<Rightarrow> (string \<times> bytes) list \<Rightarrow> (string \<times> bytes) list" where
  "write_entry n d [] = [(n, d)]"
| "write_entry n d ((m, c) # fs) = (if m = n then (n, d) # fs else (m, c) # write_entry n d fs)"

definition mkdir_cache :: "world \<Rightarrow> world" where
  "mkdir_cache w =
     (case cache w of
        None \<Rightarrow> record_effect (Mkdir (user_cache_dir w)) (w\<lparr>cache := Some []\<rparr>)
      | Some fs \<Rightarrow> w)"

definition write_cache :: "string \<Rightarrow> bytes \<Rightarrow> world \<Rightarrow> world" where
  "write_cache n d w =
     record_effect (Write (cache_path w n))
       (w\<lparr>cache := Some (write_entry n d (case cache w of None \<Rightarrow> [] | Some fs \<Rightarrow> fs))\<rparr>)"

subsection \<open>\<^verbatim>\<open>_PDFBoxVersionsParser\<close>\<close>

definition pdfbox_archive_url :: string where
  "pdfbox_archive_url = ''https://archive.apache.org/dist/pdfbox/''"

text \<open>The loop over \<open>attrs\<close> in \<^verbatim>\<open>handle_starttag\<close>; \<open>res\<close> is \<^verbatim>\<open>self.result\<close>.\<close>

fun handle_attrs :: "(string \<times> string option) list \<Rightarrow> string list \<Rightarrow> error + string list" where
  "handle_attrs [] res = Inr res"
| "handle_attrs ((n, v) # as) res =
     (if n = ''href'' then
        (case v of
           None \<Rightarrow> Inl AttributeError
         | Some u \<Rightarrow>
             (let s = strip_chars ''/'' u
              in if version_search s then handle_attrs as (res @ [s]) else handle_attrs as res))
      else handle_attrs as res)"

definition handle_starttag :: "starttag \<Rightarrow> string list \<Rightarrow> error + string list" where
  "handle_starttag t res = (if fst t = ''a'' then handle_attrs (snd t) res else Inr res)"

fun handle_all :: "starttag list \<Rightarrow> string list \<Rightarrow> error + string list" where
  "handle_all [] res = Inr res"
| "handle_all (t # ts) res =
     (case handle_starttag t res of Inl e \<Rightarrow> Inl e | Inr res' \<Rightarrow> handle_all ts res')"

text \<open>\<^verbatim>\<open>feed\<close>: the result is reset, then the library's parser calls the handler.\<close>

definition feed :: "'k library \<Rightarrow> string \<Rightarrow> error + string list" where
  "feed L data = handle_all (starttags L data) []"

subsection \<open>\<^verbatim>\<open>PDFBox._verify_sha512\<close>, \<^verbatim>\<open>_get_latest_pdfbox_url\<close>, \<^verbatim>\<open>_get_pdfbox_path\<close>\<close>

definition verify_sha512 :: "'k library \<Rightarrow> bytes \<Rightarrow> string \<Rightarrow> bool" where
  "verify_sha512 L data digest = (sha512_hexdigest L data = digest)"

definition jar_url :: "string \<Rightarrow> string" where
  "jar_url v = pdfbox_archive_url @ v @ ''/pdfbox-app-'' @ v @ ''.jar''"

text \<open>\<^verbatim>\<open>sorted(p.result, key=pkg_resources.parse_version)[-1]\<close>.\<close>

definition latest_version :: "('k::linorder) library \<Rightarrow> string list \<Rightarrow> error + string" where
  "latest_version L res = sorted_last (parse_version L) res"

definition get_latest_pdfbox_url :: "('k::linorder) library \<Rightarrow> world \<Rightarrow> (error + string) \<times> world" where
  "get_latest_pdfbox_url L w =
     (let w1 = record_effect (Urlopen pdfbox_archive_url) w
      in case remote w pdfbox_archive_url of
           Refused \<Rightarrow> (Inl URLError, w1)
         | Unreadable \<Rightarrow> (Inl (RuntimeError (''error retrieving '' @ pdfbox_archive_url)), w1)
         | Body raw cs \<Rightarrow>
             (case decode L ''utf-8'' raw of
                None \<Rightarrow> (Inl UnicodeDecodeError, w1)
              | Some data \<Rightarrow>
                  (case feed L data of
                     Inl e \<Rightarrow> (Inl e, w1)
                   | Inr res \<Rightarrow>
                       (case latest_version L res of
                          Inl e \<Rightarrow> (Inl e, w1)
                        | Inr v \<Rightarrow> (Inr (jar_url v), w1)))))"

text \<open>The sort key \<open>f\<close> of the cached files: the embedded version, parsed.\<close>

definition cache_key :: "'k library \<Rightarrow> string \<Rightarrow> error + 'k" where
  "cache_key L n = (case jar_search n of None \<Rightarrow> Inl AttributeError | Some v \<Rightarrow> parse_version L v)"

text \<open>
  The second half of the download branch, once the jar's body \<open>data\<close> has been read:
  the cache directory is created if absent, the body is written under its final name,
  and only then is the checksum fetched and compared.
\<close>

definition store_and_verify :: "'k library \<Rightarrow> string \<Rightarrow> bytes \<Rightarrow> world \<Rightarrow> (error + string) \<times> world" where
  "store_and_verify L pdfbox_url data w =
     (let sha512_url = pdfbox_url @ ''.sha512'';
          w1 = mkdir_cache w;
          pdfbox_path = cache_path w (path_name pdfbox_url);
          w2 = write_cache (path_name pdfbox_url) data w1;
          w3 = record_effect (Urlopen sha512_url) w2
      in case remote w sha512_url of
           Refused \<Rightarrow> (Inl URLError, w3)
         | Unreadable \<Rightarrow> (Inl (RuntimeError ''error retrieving sha512sum''), w3)
         | Body raw cs \<Rightarrow>
             (case decode L (case cs of None \<Rightarrow> ''utf-8'' | Some c \<Rightarrow> c) raw of
                None \<Rightarrow> (Inl (RuntimeError ''error retrieving sha512sum''), w3)
              | Some t \<Rightarrow>
                  if \<not> verify_sha512 L data (py_strip t)
                  then (Inl (RuntimeError ''failed to verify sha512sum''), w3)
                  else (Inr pdfbox_path, w3)))"

definition download :: "('k::linorder) library \<Rightarrow> world \<Rightarrow> (error + string) \<times> world" where
  "download L w =
     (case get_latest_pdfbox_url L w of
        (Inl e, w1) \<Rightarrow> (Inl e, w1)
      | (Inr pdfbox_url, w1) \<Rightarrow>
          (let w2 = record_effect (Urlopen pdfbox_url) w1
           in case remote w pdfbox_url of
                Refused \<Rightarrow> (Inl URLError, w2)
              | Unreadable \<Rightarrow> (Inl (RuntimeError (''error retrieving '' @ pdfbox_url)), w2)
              | Body data cs \<Rightarrow> store_and_verify L pdfbox_url data w2))"

definition get_pdfbox_path :: "('k::linorder) library \<Rightarrow> world \<Rightarrow> (error + string) \<times> world" where
  "get_pdfbox_path L w =
     (case environ w ''PDFBOX'' of
        Some p \<Rightarrow>
          if \<not> path_exists w p then (Inl (RuntimeError ''pdfbox not found''), w) else (Inr p, w)
      | None \<Rightarrow>
          (let w1 = record_effect (Glob (user_cache_dir w)) w;
               file_list = glob_jars w
           in if file_list \<noteq> [] then
                (case sorted_last (cache_key L) file_list of
                   Inl e \<Rightarrow> (Inl e, w1)
                 | Inr n \<Rightarrow> (Inr (cache_path w n), w1))
              else download L w1))"

text \<open>\<^verbatim>\<open>PDFBox.__init__\<close>: the object holds the two paths.\<close>

record pdfbox =
  pdfbox_path :: string
  java_path :: string

definition init :: "('k::linorder) library \<Rightarrow> world \<Rightarrow> (error + pdfbox) \<times> world" where
  "init L w =
     (case get_pdfbox_path L w of
        (Inl e, w1) \<Rightarrow> (Inl e, w1)
      | (Inr p, w1) \<Rightarrow>
          (case which_java w1 of
             None \<Rightarrow> (Inl (RuntimeError ''java not found''), w1)
           | Some j \<Rightarrow> (Inr \<lparr>pdfbox_path = p, java_path = j\<rparr>, w1)))"

subsection \<open>Python values passed as keyword arguments\<close>

text \<open>
  The operations test their arguments for truth (\<^verbatim>\<open>if password\<close>) and print them with
  \<^verbatim>\<open>str.format\<close>, so an argument is any Python value: \<^verbatim>\<open>None\<close>, a string, an integer
  or a boolean.
\<close>

datatype pyval = PyNone | PyStr string | PyInt int | PyBool bool

fun truthy :: "pyval \<Rightarrow> bool" where
  "truthy PyNone = False"
| "truthy (PyStr s) = (s \<noteq> [])"
| "truthy (PyInt i) = (i \<noteq> 0)"
| "truthy (PyBool b) = b"

fun py_str :: "pyval \<Rightarrow> string" where
  "py_str PyNone = ''None''"
| "py_str (PyStr s) = s"
| "py_str (PyInt i) = str_int i"
| "py_str (PyBool b) = (if b then ''True'' else ''False'')"

subsection \<open>Running commands\<close>

definition print_line :: "string \<Rightarrow> world \<Rightarrow> world" where
  "print_line s w = w\<lparr>printed := printed w @ [s]\<rparr>"

definition spawn :: "string \<Rightarrow> world \<Rightarrow> world" where
  "spawn cmd w = w\<lparr>spawned := spawned w @ [cmd]\<rparr>"

text \<open>\<^verbatim>\<open>_run_cmd\<close>: the command is printed, started and its handle closed.\<close>

definition run_cmd :: "string \<Rightarrow> world \<Rightarrow> world" where
  "run_cmd cmd w = spawn cmd (print_line cmd (print_line ''PDFBox is running command: '' w))"

subsection \<open>\<^verbatim>\<open>extract_text\<close>\<close>








subsection \<open>\<^verbatim>\<open>split_file\<close>, \<^verbatim>\<open>merge\<close>, \<^verbatim>\<open>pdf_debugger\<close>, \<^verbatim>\<open>to_image\<close>\<close>

record split_file_args =
  sf_input_path :: pyval
  sf_password :: pyval
  sf_split :: pyval
  sf_start_page :: pyval
  sf_end_page :: pyval

definition split_file_options :: "split_file_args \<Rightarrow> string" where
  "split_file_options a =
     (if truthy (sf_password a) then '' -password '' @ py_str (sf_password a) else []) @
     (if truthy (sf_start_page a) then '' -startPage '' @ py_str (sf_start_page a) else []) @
     (if truthy (sf_end_page a) then '' -endPage '' @ py_str (sf_end_page a) else []) @
     (if truthy (sf_split a) then '' -split '' @ py_str (sf_split a) else [])"

definition split_file :: "pdfbox \<Rightarrow> split_file_args \<Rightarrow> world \<Rightarrow> pyval \<times> world" where
  "split_file P a w =
     (PyNone,
      run_cmd (java_path P @ '' -jar '' @ pdfbox_path P @ '' PDFSplit '' @ split_file_options a
                 @ '' '' @ py_str (sf_input_path a)) w)"

definition merge :: "pdfbox \<Rightarrow> string list \<Rightarrow> pyval \<Rightarrow> world \<Rightarrow> pyval \<times> world" where
  "merge P source_files target_file w =
     (if length source_files < 2 then
        (PyNone,
         print_line ''Not enough source files to merge.  Need to have at least 2 source files.'' w)
      else
        (PyNone,
         run_cmd (java_path P @ '' -jar '' @ pdfbox_path P @ '' PDFMerger ''
                    @ join '' '' source_files @ '' '' @ py_str target_file) w))"

record pdf_debugger_args =
  pd_input_path :: pyval
  pd_password :: pyval
  pd_view_structure :: pyval

definition pdf_debugger_options :: "pdf_debugger_args \<Rightarrow> string" where
  "pdf_debugger_options a =
     (if truthy (pd_password a) then '' -password '' @ py_str (pd_password a) else []) @
     (if truthy (pd_view_structure a) then '' -viewstructure'' else [])"

definition pdf_debugger :: "pdfbox \<Rightarrow> pdf_debugger_args \<Rightarrow> world \<Rightarrow> pyval \<times> world" where
  "pdf_debugger P a w =
     (PyNone,
      run_cmd (java_path P @ '' -jar '' @ pdfbox_path P @ '' PDFDebugger ''
                 @ py_str (pd_input_path a) @ '' '' @ pdf_debugger_options a) w)"

text \<open>\<open>cropbox\<close> is \<^verbatim>\<open>None\<close> or a list of strings, joined with blanks.\<close>

record to_image_args =
  ti_input_path :: pyval
  ti_password :: pyval
  ti_image_type :: pyval
  ti_output_prefix :: pyval
  ti_start_page :: pyval
  ti_end_page :: pyval
  ti_page :: pyval
  ti_dpi :: pyval
  ti_color :: pyval
  ti_cropbox :: "string list option"
  ti_time :: pyval

definition truthy_list :: "string list option \<Rightarrow> bool" where
  "truthy_list c = (case c of None \<Rightarrow> False | Some xs \<Rightarrow> xs \<noteq> [])"

definition to_image_options :: "to_image_args \<Rightarrow> string" where
  "to_image_options a =
     (if truthy (ti_password a) then '' -password '' @ py_str (ti_password a) else []) @
     (if truthy (ti_image_type a) then '' -imageType '' @ py_str (ti_image_type a) else []) @
     (if truthy (ti_output_prefix a) then '' -outputPrefix '' @ py_str (ti_output_prefix a) else []) @
     (if truthy (ti_start_page a) then '' -startPage '' @ py_str (ti_start_page a) else []) @
     (if truthy (ti_end_page a) then '' -endPage '' @ py_str (ti_end_page a) else []) @
     (if truthy (ti_page a) then '' -page '' @ py_str (ti_page a) else []) @
     (if truthy (ti_dpi a) then '' -dpi '' @ py_str (ti_dpi a) else []) @
     (if truthy (ti_color a) then '' -color '' @ py_str (ti_color a) else []) @
     (if truthy_list (ti_cropbox a) then '' -cropbox '' @ join '' '' (the (ti_cropbox a)) else []) @
     (if truthy (ti_color a) then '' -color '' @ py_str (ti_color a) else [])"

definition to_image :: "pdfbox \<Rightarrow> to_image_args \<Rightarrow> world \<Rightarrow> pyval \<times> world" where
  "to_image P a w =
     (PyNone,
      run_cmd (java_path P @ '' -jar '' @ pdfbox_path P @ '' PDFToImage ''
                 @ py_str (ti_input_path a) @ '' '' @ to_image_options a) w)"

section \<open>What the specification says, in its own words\<close>

text \<open>Comparing two hexadecimal digests without regard to letter case.\<close>

definition ascii_lower :: "char \<Rightarrow> char" where
  "ascii_lower c =
     (let n = of_char c :: nat in if 65 \<le> n \<and> n \<le> 90 then char_of (n + 32) else c)"

definition equal_ignoring_case :: "string \<Rightarrow> string \<Rightarrow> bool" where
  "equal_ignoring_case a b = (map ascii_lower a = map ascii_lower b)"

text \<open>
  \<open>v\<close> is an element of \<open>xs\<close> whose key is defined and greatest among the keys of
  \<open>xs\<close>, all of which are defined.
\<close>

definition is_max_by :: "('a \<Rightarrow> error + 'k::linorder) \<Rightarrow> 'a list \<Rightarrow> 'a \<Rightarrow> bool" where
  "is_max_by f xs v =
     (v \<in> set xs \<and>
      (case f v of
         Inl e \<Rightarrow> False
       | Inr kv \<Rightarrow> list_all (\<lambda>x. case f x of Inl e \<Rightarrow> False | Inr k \<Rightarrow> k \<le> kv) xs))"

definition parses :: "('a \<Rightarrow> error + 'k) \<Rightarrow> 'a \<Rightarrow> bool" where
  "parses f x = (case f x of Inl e \<Rightarrow> False | Inr k \<Rightarrow> True)"











text \<open>
  The targets a start tag contributes to the catalog: for an anchor, the \<^verbatim>\<open>href\<close>
  values, slashes stripped at both ends, in which the version pattern is found.
\<close>

fun href_targets :: "(string \<times> string option) list \<Rightarrow> string list" where
  "href_targets [] = []"
| "href_targets ((n, None) # as) = href_targets as"
| "href_targets ((n, Some u) # as) =
     (if n = ''href'' \<and> version_search (strip_chars ''/'' u)
      then strip_chars ''/'' u # href_targets as else href_targets as)"

definition matching_targets :: "starttag \<Rightarrow> string list" where
  "matching_targets t = (if fst t = ''a'' then href_targets (snd t) else [])"

definition valueless_href :: "starttag \<Rightarrow> bool" where
  "valueless_href t = (fst t = ''a'' \<and> (''href'', None) \<in> set (snd t))"

section \<open>A concrete library and concrete worlds for the examples\<close>

text \<open>
  The SHA-512 digests, in \<^verbatim>\<open>hexdigest\<close> form, of the two payloads the examples use: the
  empty byte string and \<^verbatim>\<open>b'abc'\<close>. The examples ask for no other digest.
\<close>

definition sha512_known :: "bytes \<Rightarrow> string" where
  "sha512_known data =
     (if data = [] then
        ''cf83e1357eefb8bdf1542850d66d8007d620e4050b5715dc83f4a921d36ce9ce47d0d13c5d85f2b0ff8318d2877eec2f63b931bd47417a81a538327af927da3e''
      else if data = [0x61, 0x62, 0x63] then
        ''ddaf35a193617abacc417349ae20413112e6fa4e89a97ea20a9eeee64b55d39a2192992a274fc1a836ba3c23a3feebbd454d4423643ce80e2a9ac94fa54ca49f''
      else [])"

text \<open>
  Version keys for plain release numbers, as \<^verbatim>\<open>parse_version\<close> orders them: the
  dot-separated numbers, trailing zeros dropped, compared as tuples. Anything else is
  rejected here.
\<close>

fun split_on :: "char \<Rightarrow> string \<Rightarrow> string list" where
  "split_on c [] = [[]]"
| "split_on c (x # xs) =
     (if x = c then [] # split_on c xs
      else (case split_on c xs of [] \<Rightarrow> [[x]] | y # ys \<Rightarrow> (x # y) # ys))"

definition digits_value :: "string \<Rightarrow> nat" where
  "digits_value s = foldl (\<lambda>a c. 10 * a + (of_char c - 48)) 0 s"

definition parse_release :: "string \<Rightarrow> error + nat list" where
  "parse_release s =
     (let cs = split_on (CHR ''.'') s
      in if list_all (\<lambda>c. c \<noteq> [] \<and> list_all is_digit c) cs
         then Inr (rev (dropWhile (\<lambda>n. n = 0) (rev (map digits_value cs))))
         else Inl InvalidVersion)"

text \<open>ASCII text and its bytes.\<close>

definition ascii_bytes :: "string \<Rightarrow> bytes" where
  "ascii_bytes s = map (\<lambda>c. of_nat (of_char c)) s"

definition decode_ascii :: "string \<Rightarrow> bytes \<Rightarrow> string option" where
  "decode_ascii enc b =
     (if list_all (\<lambda>x. unat x < 128) b then Some (map (\<lambda>x. char_of (unat x)) b) else None)"

text \<open>The library whose tokenizer reports the start tags \<open>tags\<close> for the page at hand.\<close>

definition example_library :: "starttag list \<Rightarrow> (nat list) library" where
  "example_library tags =
     \<lparr>sha512_hexdigest = sha512_known, parse_version = parse_release,
      decode = decode_ascii, starttags = (\<lambda>data. tags)\<rparr>"

text \<open>A machine with no override, Java installed and nothing reachable on the network.\<close>

definition offline_world :: "(string \<times> bytes) list option \<Rightarrow> world" where
  "offline_world c =
     \<lparr>environ = (\<lambda>v. None), path_exists = (\<lambda>p. False),
      user_cache_dir = ''/home/user/.cache/python-pdfbox'', cache = c,
      remote = (\<lambda>u. Refused), which_java = Some ''/usr/bin/java'', effects = [],
      printed = [], spawned = [], child_stdout = (\<lambda>cmd. [])\<rparr>"

text \<open>
  The archive lists version 2.0.0; the jar is the three bytes \<^verbatim>\<open>b'abc'\<close>; the checksum
  file holds \<open>checksum\<close>.
\<close>

definition archive_remote :: "string \<Rightarrow> string \<Rightarrow> response" where
  "archive_remote checksum u =
     (if u = pdfbox_archive_url then Body (ascii_bytes ''<a href=\"2.0.0/\">2.0.0/</a>'') None
      else if u = jar_url ''2.0.0'' then Body [0x61, 0x62, 0x63] None
      else if u = jar_url ''2.0.0'' @ ''.sha512'' then Body (ascii_bytes checksum) None
      else Refused)"

definition archive_library :: "(nat list) library" where
  "archive_library = example_library [(''a'', [(''href'', Some ''2.0.0/'')])]"

text \<open>The same machine with an empty cache, the archive reachable and a checksum file.\<close>

definition archive_world :: "string \<Rightarrow> world" where
  "archive_world checksum = (offline_world None)\<lparr>remote := archive_remote checksum\<rparr>"

text \<open>The digest of the empty byte string: well formed, but not the digest of the jar.\<close>

definition wrong_checksum :: string where
  "wrong_checksum = sha512_known []"

text \<open>A machine whose override variable names a path that may or may not exist.\<close>

definition override_world :: "string \<Rightarrow> bool \<Rightarrow> world" where
  "override_world p ex =
     (offline_world None)
       \<lparr>environ := (\<lambda>v. if v = ''PDFBOX'' then Some p else None), path_exists := (\<lambda>q. ex \<and> q = p)\<rparr>"

text \<open>Caches: two releases; and a release beside a file the glob pattern also admits.\<close>

definition two_jars_world :: world where
  "two_jars_world =
     offline_world (Some [(''pdfbox-app-2.9.0.jar'', []), (''pdfbox-app-2.10.0.jar'', [])])"

definition stray_file_world :: world where
  "stray_file_world =
     offline_world (Some [(''pdfbox-app-2.0.0.jar'', []), (''pdfbox-app-.jar'', [])])"


text \<open>A resolved installation, and calls of the operations.\<close>

definition example_pdfbox :: pdfbox where
  "example_pdfbox = \<lparr>pdfbox_path = ''/opt/pdfbox.jar'', java_path = ''/usr/bin/java''\<rparr>"

definition test_pdf_world :: world where
  "test_pdf_world =
     (offline_world None)\<lparr>child_stdout := (\<lambda>cmd. ''this is a test PDF'' @ [CHR 0x0A])\<rparr>"



text \<open>Start tags of a listing: a release directory, and the link to the \<^verbatim>\<open>KEYS\<close> file.\<close>

definition release_tag :: starttag where
  "release_tag = (''a'', [(''href'', Some ''2.0.0/'')])"

definition keys_tag :: starttag where
  "keys_tag = (''a'', [(''href'', Some ''KEYS'')])"

text \<open>A listing without any release, on a machine with an empty cache.\<close>

definition keys_page :: string where
  "keys_page = ''<a href=\"KEYS\">KEYS</a>''"

definition empty_page_world :: world where
  "empty_page_world =
     (offline_world None)
       \<lparr>remote := (\<lambda>u. if u = pdfbox_archive_url then Body (ascii_bytes keys_page) None
                        else Refused)\<rparr>"

text \<open>The checksum file of the jar \<^verbatim>\<open>b'abc'\<close>: its digest and a line feed.\<close>

definition right_checksum :: string where
  "right_checksum = sha512_known [0x61, 0x62, 0x63] @ [CHR 0x0A]"

section \<open>Properties\<close>

subsection \<open>Effects\<close>

lemma requests_record_effect:
  "requests (record_effect e w) = requests w @ (case e of Urlopen u \<Rightarrow> [u] | _ \<Rightarrow> [])"
  by (simp add: requests_def record_effect_def)

lemma glob_jars_record_effect [simp]: "glob_jars (record_effect e w) = glob_jars w"
  by (simp add: glob_jars_def cache_names_def record_effect_def)

lemma cache_record_effect [simp]: "cache (record_effect e w) = cache w"
  by (simp add: record_effect_def)

lemma environ_record_effect [simp]: "environ (record_effect e w) = environ w"
  by (simp add: record_effect_def)

lemma remote_record_effect [simp]: "remote (record_effect e w) = remote w"
  by (simp add: record_effect_def)

lemma user_cache_dir_record_effect [simp]:
  "user_cache_dir (record_effect e w) = user_cache_dir w"
  by (simp add: record_effect_def)

lemma cache_path_record_effect [simp]: "cache_path (record_effect e w) n = cache_path w n"
  by (simp add: cache_path_def)

subsection \<open>The environment override\<close>

text \<open>
  C2. When \<^verbatim>\<open>PDFBOX\<close> is set, \<^verbatim>\<open>_get_pdfbox_path\<close> raises
  \<^verbatim>\<open>RuntimeError('pdfbox not found')\<close> if the path does not exist and returns the path
  otherwise; in both cases the world is returned as it was, so no request was sent and
  the cache directory was not scanned. With a missing path the constructor fails with
  that error, the world again untouched.
\<close>

theorem override_short_circuits:
  "environ w ''PDFBOX'' = Some p \<Longrightarrow>
     get_pdfbox_path L w =
       (if \<not> path_exists w p then Inl (RuntimeError ''pdfbox not found'') else Inr p, w)
     \<and> (\<not> path_exists w p \<longrightarrow> init L w = (Inl (RuntimeError ''pdfbox not found''), w))"
  by (simp add: get_pdfbox_path_def init_def)

theorem override_short_circuits_witness:
  "environ (override_world ''/opt/pdfbox.jar'' False) ''PDFBOX'' = Some ''/opt/pdfbox.jar''
   \<and> init archive_library (override_world ''/opt/pdfbox.jar'' False)
       = (Inl (RuntimeError ''pdfbox not found''), override_world ''/opt/pdfbox.jar'' False)
   \<and> get_pdfbox_path archive_library (override_world ''/opt/pdfbox.jar'' True)
       = (Inr ''/opt/pdfbox.jar'', override_world ''/opt/pdfbox.jar'' True)
   \<and> requests (override_world ''/opt/pdfbox.jar'' False) = []
   \<and> scans (override_world ''/opt/pdfbox.jar'' False) = []"
proof -
  have e: "\<And>b. environ (override_world ''/opt/pdfbox.jar'' b) ''PDFBOX'' = Some ''/opt/pdfbox.jar''"
    by (simp add: override_world_def offline_world_def)
  have p: "\<And>b. path_exists (override_world ''/opt/pdfbox.jar'' b) ''/opt/pdfbox.jar'' = b"
    by (simp add: override_world_def offline_world_def)
  have r: "requests (override_world ''/opt/pdfbox.jar'' False) = []"
    "scans (override_world ''/opt/pdfbox.jar'' False) = []"
    by (simp_all add: override_world_def offline_world_def requests_def scans_def)
  show ?thesis
    using override_short_circuits[OF e[of False], of archive_library]
      override_short_circuits[OF e[of True], of archive_library] e p r by simp
qed

subsection \<open>Sorting by key and taking the last element\<close>

lemma keys_of_Inr:
  "keys_of f xs = Inr ks \<Longrightarrow> map snd ks = xs \<and> (\<forall>p\<in>set ks. f (snd p) = Inr (fst p))"
  by (induction xs arbitrary: ks) (auto split: sum.splits)

lemma keys_of_total:
  "list_all (parses f) xs \<Longrightarrow> \<exists>ks. keys_of f xs = Inr ks"
  by (induction xs) (auto simp: parses_def split: sum.splits)



lemma last_sort_key_max:
  assumes "ks \<noteq> []"
  shows "last (sort_key f ks) \<in> set ks \<and> (\<forall>p\<in>set ks. f p \<le> f (last (sort_key f ks)))"
proof -
  let ?s = "sort_key f ks"
  have ne: "?s \<noteq> []" using assms by (metis length_sort length_0_conv)
  have in_s: "last ?s \<in> set ks" using ne by (metis last_in_set set_sort)
  have srt: "sorted (map f ?s)" by simp
  have "\<forall>p\<in>set ks. f p \<le> f (last ?s)"
  proof
    fix p assume "p \<in> set ks"
    then have "p \<in> set ?s" by simp
    then obtain i where i: "i < length ?s" "?s ! i = p" unfolding in_set_conv_nth by blast
    have "map f ?s ! i \<le> map f ?s ! (length ?s - 1)"
      using srt i ne by (intro sorted_nth_mono) auto
    then show "f p \<le> f (last ?s)" using i ne by (simp add: last_conv_nth)
  qed
  then show ?thesis using in_s by simp
qed

lemma sorted_last_max:
  assumes "xs \<noteq> []" and "list_all (parses f) xs"
  shows "\<exists>v. sorted_last f xs = Inr v \<and> is_max_by f xs v"
proof -
  obtain ks where ks: "keys_of f xs = Inr ks" using keys_of_total[OF assms(2)] by blast
  have m: "map snd ks = xs" and k: "\<forall>p\<in>set ks. f (snd p) = Inr (fst p)"
    using keys_of_Inr[OF ks] by auto
  have ne: "ks \<noteq> []" using m assms(1) by auto
  let ?p = "last (sort_key fst ks)"
  have mx: "?p \<in> set ks" "\<forall>q\<in>set ks. fst q \<le> fst ?p"
    using last_sort_key_max[OF ne, of fst] by auto
  have sne: "sort_key fst ks \<noteq> []" using ne by (metis length_sort length_0_conv)
  have res: "sorted_last f xs = Inr (snd ?p)"
    using sne by (simp add: sorted_last_def py_sorted_def ks py_last_def last_map)
  have mem: "snd ?p \<in> set xs" using mx(1) m by force
  have kv: "f (snd ?p) = Inr (fst ?p)" using k mx(1) by blast
  have "list_all (\<lambda>x. case f x of Inl e \<Rightarrow> False | Inr k \<Rightarrow> k \<le> fst ?p) xs"
    unfolding list_all_iff
  proof
    fix x assume "x \<in> set xs"
    then obtain q where q: "q \<in> set ks" "snd q = x" using m by force
    then show "case f x of Inl e \<Rightarrow> False | Inr k \<Rightarrow> k \<le> fst ?p" using k mx(2) by force
  qed
  then have "is_max_by f xs (snd ?p)" using mem kv by (simp add: is_max_by_def)
  then show ?thesis using res by blast
qed

lemma cache_hit_step:
  assumes "environ w ''PDFBOX'' = None" "glob_jars w \<noteq> []"
  shows "get_pdfbox_path L w =
     (case sorted_last (cache_key L) (glob_jars w) of
        Inl e \<Rightarrow> Inl e
      | Inr n \<Rightarrow> Inr (cache_path w n),
      record_effect (Glob (user_cache_dir w)) w)"
  using assms by (simp add: get_pdfbox_path_def Let_def split: sum.splits)

subsection \<open>Version selection\<close>




lemma two_jars_glob:
  "environ two_jars_world ''PDFBOX'' = None
   \<and> glob_jars two_jars_world = [''pdfbox-app-2.9.0.jar'', ''pdfbox-app-2.10.0.jar'']"
  by code_simp

lemma two_jars_parse:
  "list_all (parses (cache_key archive_library))
     [''pdfbox-app-2.9.0.jar'', ''pdfbox-app-2.10.0.jar'']"
  by code_simp




subsection \<open>Resolving from a populated cache\<close>

text \<open>
  C4, as the code has it. With no override and at least one file matching the glob
  pattern, two successive calls give the same outcome, send no request and leave the
  cache as it was. The outcome is the path of one of the matching files when every
  matching file name embeds a version that the regular expression finds and
  \<^verbatim>\<open>parse_version\<close> accepts.
\<close>

theorem cache_hit_idempotent:
  "environ w ''PDFBOX'' = None \<and> glob_jars w \<noteq> [] \<longrightarrow>
     (case get_pdfbox_path L w of (r1, w1) \<Rightarrow>
        (case get_pdfbox_path L w1 of (r2, w2) \<Rightarrow>
           r2 = r1 \<and> requests w2 = requests w \<and> cache w2 = cache w \<and>
           (list_all (parses (cache_key L)) (glob_jars w) \<longrightarrow>
              (\<exists>n. n \<in> set (glob_jars w) \<and> r1 = Inr (cache_path w n)))))"
proof
  assume a: "environ w ''PDFBOX'' = None \<and> glob_jars w \<noteq> []"
  let ?w1 = "record_effect (Glob (user_cache_dir w)) w"
  let ?r = "case sorted_last (cache_key L) (glob_jars w) of
      Inl e \<Rightarrow> Inl e | Inr n \<Rightarrow> Inr (cache_path w n)"
  have s1: "get_pdfbox_path L w = (?r, ?w1)" using a cache_hit_step by blast
  have s2: "get_pdfbox_path L ?w1 = (?r, record_effect (Glob (user_cache_dir w)) ?w1)"
    using a cache_hit_step[of ?w1 L] by (simp cong: sum.case_cong)
  have rq: "requests (record_effect (Glob (user_cache_dir w)) ?w1) = requests w"
    by (simp add: requests_record_effect)
  have p: "list_all (parses (cache_key L)) (glob_jars w) \<longrightarrow>
              (\<exists>n. n \<in> set (glob_jars w) \<and> ?r = Inr (cache_path w n))"
  proof
    assume "list_all (parses (cache_key L)) (glob_jars w)"
    then obtain n where "sorted_last (cache_key L) (glob_jars w) = Inr n"
      "is_max_by (cache_key L) (glob_jars w) n"
      using sorted_last_max a by blast
    then show "\<exists>n. n \<in> set (glob_jars w) \<and> ?r = Inr (cache_path w n)"
      by (auto simp: is_max_by_def)
  qed
  show "case get_pdfbox_path L w of (r1, w1) \<Rightarrow>
        (case get_pdfbox_path L w1 of (r2, w2) \<Rightarrow>
           r2 = r1 \<and> requests w2 = requests w \<and> cache w2 = cache w \<and>
           (list_all (parses (cache_key L)) (glob_jars w) \<longrightarrow>
              (\<exists>n. n \<in> set (glob_jars w) \<and> r1 = Inr (cache_path w n))))"
    using p by (simp add: s1 s2 rq)
qed

theorem cache_hit_idempotent_witness:
  "environ two_jars_world ''PDFBOX'' = None \<and> glob_jars two_jars_world \<noteq> []
   \<and> list_all (parses (cache_key archive_library)) (glob_jars two_jars_world)
   \<and> (case get_pdfbox_path archive_library two_jars_world of (r1, w1) \<Rightarrow>
        (case get_pdfbox_path archive_library w1 of (r2, w2) \<Rightarrow>
           r2 = r1 \<and> requests w2 = requests two_jars_world \<and> cache w2 = cache two_jars_world
           \<and> (\<exists>n. n \<in> set (glob_jars two_jars_world)
                \<and> r1 = Inr (cache_path two_jars_world n))))
   \<and> requests two_jars_world = []"
proof -
  have r: "requests two_jars_world = []"
    by (simp add: two_jars_world_def offline_world_def requests_def)
  show ?thesis
    using cache_hit_idempotent[of two_jars_world archive_library] two_jars_glob two_jars_parse r
    by (auto split: prod.splits)
qed

text \<open>
  The claim as it is written: a cache that holds a released jar and, beside it, a file
  named \<^verbatim>\<open>pdfbox-app-.jar\<close>. The glob pattern admits both, the regular expression of the
  sort key finds no version in the second, and the call raises instead of returning a
  path.
\<close>

theorem cache_hit_counterexample:
  "environ stray_file_world ''PDFBOX'' = None
   \<and> glob_jars stray_file_world = [''pdfbox-app-2.0.0.jar'', ''pdfbox-app-.jar'']
   \<and> parses (cache_key archive_library) ''pdfbox-app-2.0.0.jar''
   \<and> fst (get_pdfbox_path archive_library stray_file_world) = Inl AttributeError"
  by code_simp

subsection \<open>The version catalog\<close>

lemma handle_attrs_targets:
  "(''href'', None) \<notin> set as \<Longrightarrow> handle_attrs as res = Inr (res @ href_targets as)"
proof (induction as arbitrary: res)
  case Nil
  then show ?case by simp
next
  case (Cons a as)
  obtain n v where a: "a = (n, v)" by (cases a)
  show ?case
  proof (cases v)
    case None
    with Cons a show ?thesis by auto
  next
    case (Some u)
    with Cons a show ?thesis by (auto simp: Let_def)
  qed
qed

lemma handle_all_targets:
  "list_all (\<lambda>t. \<not> valueless_href t) ts \<Longrightarrow>
     handle_all ts res = Inr (res @ concat (map matching_targets ts))"
proof (induction ts arbitrary: res)
  case Nil
  then show ?case by simp
next
  case (Cons t ts)
  have "handle_starttag t res = Inr (res @ matching_targets t)"
    using Cons.prems handle_attrs_targets[of "snd t" res]
    by (auto simp: handle_starttag_def matching_targets_def valueless_href_def)
  then show ?case using Cons by simp
qed

lemma empty_catalog_fails:
  assumes "remote w pdfbox_archive_url = Body raw cs" "decode L ''utf-8'' raw = Some data"
    "feed L data = Inr []"
  shows "get_latest_pdfbox_url L w
    = (Inl IndexError, record_effect (Urlopen pdfbox_archive_url) w)"
  using assms
  by (simp add: get_latest_pdfbox_url_def Let_def latest_version_def sorted_last_def
      py_sorted_def py_last_def)

text \<open>
  C5, as the code has it. When every \<^verbatim>\<open>href\<close> of an anchor has a value,
  \<^verbatim>\<open>feed\<close> leaves in \<^verbatim>\<open>result\<close> the list of the anchors' \<^verbatim>\<open>href\<close> values, slashes
  stripped, in which the version pattern is found: in document order, one entry per
  occurrence. When that list is empty and the cache holds no jar, resolution raises
  \<^verbatim>\<open>IndexError\<close> after the one request for the listing, and nothing is written.
\<close>

theorem catalog_targets:
  "(list_all (\<lambda>t. \<not> valueless_href t) (starttags L data) \<longrightarrow>
      feed L data = Inr (concat (map matching_targets (starttags L data)))) \<and>
   (environ w ''PDFBOX'' = None \<and> glob_jars w = []
      \<and> remote w pdfbox_archive_url = Body raw cs
      \<and> decode L ''utf-8'' raw = Some data \<and> feed L data = Inr [] \<longrightarrow>
      (case get_pdfbox_path L w of (r, w') \<Rightarrow>
         r = Inl IndexError \<and> requests w' = requests w @ [pdfbox_archive_url]
         \<and> cache w' = cache w))"
proof (intro conjI impI)
  assume "list_all (\<lambda>t. \<not> valueless_href t) (starttags L data)"
  then show "feed L data = Inr (concat (map matching_targets (starttags L data)))"
    using handle_all_targets[of "starttags L data" "[]"] by (simp add: feed_def)
next
  assume a: "environ w ''PDFBOX'' = None \<and> glob_jars w = []
      \<and> remote w pdfbox_archive_url = Body raw cs
      \<and> decode L ''utf-8'' raw = Some data \<and> feed L data = Inr []"
  let ?w1 = "record_effect (Glob (user_cache_dir w)) w"
  have u: "get_latest_pdfbox_url L ?w1
      = (Inl IndexError, record_effect (Urlopen pdfbox_archive_url) ?w1)"
    using a by (intro empty_catalog_fails[where raw = raw and cs = cs and data = data]) auto
  have g: "get_pdfbox_path L w
      = (Inl IndexError, record_effect (Urlopen pdfbox_archive_url) ?w1)"
    using a u by (simp add: get_pdfbox_path_def Let_def download_def)
  show "case get_pdfbox_path L w of (r, w') \<Rightarrow>
         r = Inl IndexError \<and> requests w' = requests w @ [pdfbox_archive_url]
         \<and> cache w' = cache w"
    by (simp add: g requests_record_effect)
qed

lemma listing_has_values:
  "list_all (\<lambda>t. \<not> valueless_href t)
     (starttags (example_library [release_tag, keys_tag, release_tag]) [])"
  by code_simp

lemma listing_targets:
  "concat (map matching_targets
     (starttags (example_library [release_tag, keys_tag, release_tag]) []))
   = [''2.0.0'', ''2.0.0'']"
  by code_simp

lemma empty_page_facts:
  "environ empty_page_world ''PDFBOX'' = None \<and> glob_jars empty_page_world = []
   \<and> remote empty_page_world pdfbox_archive_url = Body (ascii_bytes keys_page) None
   \<and> decode (example_library [keys_tag]) ''utf-8'' (ascii_bytes keys_page) = Some keys_page
   \<and> feed (example_library [keys_tag]) keys_page = Inr []
   \<and> requests empty_page_world = [] \<and> cache empty_page_world = None"
  by code_simp

theorem catalog_targets_witness:
  "list_all (\<lambda>t. \<not> valueless_href t)
     (starttags (example_library [release_tag, keys_tag, release_tag]) [])
   \<and> feed (example_library [release_tag, keys_tag, release_tag]) [] = Inr [''2.0.0'', ''2.0.0'']
   \<and> feed (example_library [keys_tag]) keys_page = Inr []
   \<and> (case get_pdfbox_path (example_library [keys_tag]) empty_page_world of (r, w') \<Rightarrow>
         r = Inl IndexError \<and> requests w' = [pdfbox_archive_url] \<and> cache w' = None)"
  using catalog_targets[of "example_library [release_tag, keys_tag, release_tag]" "[]"]
    catalog_targets[of "example_library [keys_tag]" keys_page empty_page_world
      "ascii_bytes keys_page" None]
    listing_has_values listing_targets empty_page_facts
  by (auto split: prod.splits)

text \<open>
  The claim as it is written: a listing that links the same release twice. The result
  holds the version twice; duplicates are not collapsed.
\<close>

theorem catalog_duplicates_counterexample:
  "feed (example_library [release_tag, release_tag]) [] = Inr [''2.0.0'', ''2.0.0'']
   \<and> \<not> distinct [''2.0.0'', ''2.0.0'']"
  by code_simp

subsection \<open>Checksum verification\<close>

text \<open>
  C8, as the code has it. \<^verbatim>\<open>_verify_sha512\<close> succeeds exactly when the digest text is,
  character for character, the \<^verbatim>\<open>hexdigest\<close> of the payload. During a download the
  text compared is the checksum file, decoded and stripped of surrounding white space:
  equal to the \<^verbatim>\<open>hexdigest\<close>, the path is returned; anything else raises
  \<^verbatim>\<open>RuntimeError('failed to verify sha512sum')\<close>.
\<close>

theorem checksum_comparison_exact:
  "verify_sha512 L data digest = (digest = sha512_hexdigest L data) \<and>
   (remote w (url @ ''.sha512'') = Body raw cs
      \<and> decode L (case cs of None \<Rightarrow> ''utf-8'' | Some c \<Rightarrow> c) raw = Some t \<longrightarrow>
    fst (store_and_verify L url data w) =
      (if py_strip t = sha512_hexdigest L data then Inr (cache_path w (path_name url))
       else Inl (RuntimeError ''failed to verify sha512sum'')))"
  by (auto simp: verify_sha512_def store_and_verify_def Let_def)

lemma right_checksum_facts:
  "remote (archive_world right_checksum) (jar_url ''2.0.0'' @ ''.sha512'')
     = Body (ascii_bytes right_checksum) None
   \<and> decode archive_library ''utf-8'' (ascii_bytes right_checksum) = Some right_checksum
   \<and> py_strip right_checksum = sha512_hexdigest archive_library [0x61, 0x62, 0x63]
   \<and> cache_path (archive_world right_checksum) (path_name (jar_url ''2.0.0''))
       = ''/home/user/.cache/python-pdfbox/pdfbox-app-2.0.0.jar''"
  by code_simp

theorem checksum_comparison_exact_witness:
  "remote (archive_world right_checksum) (jar_url ''2.0.0'' @ ''.sha512'')
     = Body (ascii_bytes right_checksum) None
   \<and> decode archive_library ''utf-8'' (ascii_bytes right_checksum) = Some right_checksum
   \<and> verify_sha512 archive_library [0x61, 0x62, 0x63] (py_strip right_checksum)
   \<and> fst (store_and_verify archive_library (jar_url ''2.0.0'') [0x61, 0x62, 0x63]
            (archive_world right_checksum))
       = Inr ''/home/user/.cache/python-pdfbox/pdfbox-app-2.0.0.jar''"
  using checksum_comparison_exact[of archive_library "[0x61, 0x62, 0x63]"
      "py_strip right_checksum" "archive_world right_checksum" "jar_url ''2.0.0''"
      "ascii_bytes right_checksum" None right_checksum]
    right_checksum_facts
  by simp

text \<open>
  The claim as it is written: the digest of the empty payload in upper case. It equals
  the \<^verbatim>\<open>hexdigest\<close> when letter case is ignored, and verification fails.
\<close>

theorem checksum_case_counterexample:
  "equal_ignoring_case
     ''CF83E1357EEFB8BDF1542850D66D8007D620E4050B5715DC83F4A921D36CE9CE47D0D13C5D85F2B0FF8318D2877EEC2F63B931BD47417A81A538327AF927DA3E''
     (sha512_hexdigest archive_library [])
   \<and> \<not> verify_sha512 archive_library []
     ''CF83E1357EEFB8BDF1542850D66D8007D620E4050B5715DC83F4A921D36CE9CE47D0D13C5D85F2B0FF8318D2877EEC2F63B931BD47417A81A538327AF927DA3E''"
  by code_simp

subsection \<open>A download whose checksum does not match\<close>

text \<open>
  Whatever the comparison will say, the jar's body is in the cache under its final name
  once \<^verbatim>\<open>_get_pdfbox_path\<close> has read it.
\<close>

lemma store_and_verify_writes_first:
  "cache (snd (store_and_verify L url data w)) =
     Some (write_entry (path_name url) data (case cache w of None \<Rightarrow> [] | Some fs \<Rightarrow> fs))"
  by (auto simp: store_and_verify_def Let_def write_cache_def mkdir_cache_def record_effect_def
      split: response.splits option.splits)

text \<open>
  C1, at a failing input. The cache is empty, the archive lists 2.0.0, the jar is
  \<^verbatim>\<open>b'abc'\<close> and the checksum file holds another digest. The call raises
  \<^verbatim>\<open>RuntimeError('failed to verify sha512sum')\<close>, but the jar is left in the cache as
  \<^verbatim>\<open>pdfbox-app-2.0.0.jar\<close>, and the next call returns that file without any request.
\<close>

theorem mismatch_leaves_jar_in_cache:
  "cache (archive_world wrong_checksum) = None \<and>
   (case get_pdfbox_path archive_library (archive_world wrong_checksum) of (r, w) \<Rightarrow>
      r = Inl (RuntimeError ''failed to verify sha512sum'')
      \<and> cache w = Some [(''pdfbox-app-2.0.0.jar'', [0x61, 0x62, 0x63])]
      \<and> fst (get_pdfbox_path archive_library w)
          = Inr ''/home/user/.cache/python-pdfbox/pdfbox-app-2.0.0.jar''
      \<and> requests (snd (get_pdfbox_path archive_library w)) = requests w)"
  by code_simp

subsection \<open>Command lines\<close>















text \<open>
  C9. With fewer than two source files \<^verbatim>\<open>merge\<close> prints its message and returns
  \<^verbatim>\<open>None\<close>; no command is started and nothing else is printed.
\<close>

theorem merge_too_few_sources:
  "length source_files < 2 \<Longrightarrow>
     merge P source_files target_file w =
       (PyNone,
        print_line ''Not enough source files to merge.  Need to have at least 2 source files.'' w)
     \<and> spawned (snd (merge P source_files target_file w)) = spawned w
     \<and> printed (snd (merge P source_files target_file w)) =
         printed w @ [''Not enough source files to merge.  Need to have at least 2 source files.'']"
  by (simp add: merge_def print_line_def)

theorem merge_too_few_sources_witness:
  "length [''tests/test.pdf''] < 2
   \<and> fst (merge example_pdfbox [''tests/test.pdf''] (PyStr ''merged.pdf'') test_pdf_world) = PyNone
   \<and> spawned (snd (merge example_pdfbox [''tests/test.pdf''] (PyStr ''merged.pdf'')
        test_pdf_world)) = []
   \<and> printed (snd (merge example_pdfbox [''tests/test.pdf''] (PyStr ''merged.pdf'')
        test_pdf_world))
       = [''Not enough source files to merge.  Need to have at least 2 source files.'']"
proof -
  have l: "length [''tests/test.pdf''] < 2" by simp
  have e: "spawned test_pdf_world = []" "printed test_pdf_world = []"
    by (simp_all add: test_pdf_world_def offline_world_def)
  show ?thesis
    using merge_too_few_sources[OF l, of example_pdfbox "PyStr ''merged.pdf''" test_pdf_world] e l
    by (simp add: print_line_def)
qed





end
